theory Spec2Isabelle
  imports Main "HOL-Library.Sublist"
begin

section \<open>Strings, thrown values and the regular expression of parseDataUrl\<close>

text \<open>
  JavaScript strings are modelled as \<^typ>\<open>string\<close>. A \<^typ>\<open>char\<close> is one code unit
  below 256; the data URLs that \<^verbatim>\<open>FileReader.readAsDataURL\<close> produces are ASCII. In this
  range the line terminators that the regular expression's \<^verbatim>\<open>.\<close> refuses are LF and CR
  (U+2028 and U+2029 lie outside it).

  A value that is thrown is observed by the program in three ways only:
  \<^verbatim>\<open>instanceof Error\<close>, \<^verbatim>\<open>.message\<close> and \<^verbatim>\<open>JSON.stringify\<close>. \<open>Error m\<close> is an instance of
  \<^verbatim>\<open>Error\<close> with message \<open>m\<close>; \<open>NonError j\<close> is any other value, \<open>j\<close> being the text that
  \<^verbatim>\<open>JSON.stringify\<close> of it contributes to a template literal.
\<close>

datatype thrown = Error (message: string) | NonError (stringified: string)

definition is_word_char :: "char \<Rightarrow> bool" where
  \<comment> \<open>\<^verbatim>\<open>\w\<close> without the unicode or ignore-case flag: \<^verbatim>\<open>[A-Za-z0-9_]\<close>\<close>
  "is_word_char c \<longleftrightarrow>
     c \<in> set (''abcdefghijklmnopqrstuvwxyz'' @ ''ABCDEFGHIJKLMNOPQRSTUVWXYZ'' @ ''0123456789_'')"

definition is_line_terminator :: "char \<Rightarrow> bool" where
  \<comment> \<open>what \<^verbatim>\<open>.\<close> does not match (no \<^verbatim>\<open>s\<close> flag)\<close>
  "is_line_terminator c \<longleftrightarrow> c = CHR 0x0A \<or> c = CHR 0x0D"

fun strip_prefix :: "string \<Rightarrow> string \<Rightarrow> string option" where
  "strip_prefix [] s = Some s"
| "strip_prefix (p # ps) [] = None"
| "strip_prefix (p # ps) (c # cs) = (if p = c then strip_prefix ps cs else None)"

definition match_data_url :: "string \<Rightarrow> (string \<times> string) option" where
  \<comment> \<open>\<^verbatim>\<open>dataUrl.match(/^data:(image\/\w+);base64,(.*)$/)\<close>: the two capture groups, or
      \<open>None\<close> for \<^verbatim>\<open>null\<close>. The run \<^verbatim>\<open>\w+\<close> is greedy and the character after it has to
      be \<^verbatim>\<open>;\<close>, which is no word character, so the longest run is the only candidate.\<close>
  "match_data_url dataUrl =
     (case strip_prefix ''data:'' dataUrl of
        None \<Rightarrow> None
      | Some r1 \<Rightarrow>
         (case strip_prefix ''image/'' r1 of
            None \<Rightarrow> None
          | Some r2 \<Rightarrow>
             (let w = takeWhile is_word_char r2; r3 = dropWhile is_word_char r2 in
              if w = [] then None
              else (case strip_prefix '';base64,'' r3 of
                      None \<Rightarrow> None
                    | Some d \<Rightarrow>
                       if list_ex is_line_terminator d then None
                       else Some (''image/'' @ w, d)))))"

section \<open>services/geminiService.ts\<close>

record ImagePayload =
  mimeType :: string
  data :: string

definition invalid_format_message :: string where
  "invalid_format_message =
     ''Invalid image data URL format. Expected 'data:image/...;base64,...'' @ [CHR 0x27]"

definition parseDataUrl :: "string \<Rightarrow> thrown + ImagePayload" where
  "parseDataUrl dataUrl =
     (case match_data_url dataUrl of
        None \<Rightarrow> Inl (Error invalid_format_message)
      | Some (m, d) \<Rightarrow> Inr \<lparr>mimeType = m, data = d\<rparr>)"

text \<open>The request: two inline-data parts and a text part, in this order.\<close>

datatype request_part = InlineDataPart ImagePayload | TextPart string

datatype Modality = IMAGE | TEXT

record GenerationRequest =
  model :: string
  contents :: "request_part list"
  responseModalities :: "Modality list"

text \<open>
  The response of the SDK. Every field is optional there; \<open>response_text\<close> is the SDK's aggregate
  text getter, taken as a field of the response.
\<close>

datatype blob = Blob (blob_mimeType: "string option") (blob_data: "string option")

record part =
  inlineData :: "blob option"
  part_text :: "string option"

record content =
  parts :: "part list option"

record candidate =
  candidate_content :: "content option"

record GenerateContentResponse =
  candidates :: "candidate list option"
  response_text :: "string option"

datatype log_entry =
    ApiNoImage "string option"
  | Unrecoverable thrown
  | AttemptFailed nat string

definition interpolate :: "string option \<Rightarrow> string" where
  \<comment> \<open>a \<^verbatim>\<open>string | undefined\<close> inside a template literal\<close>
  "interpolate x = (case x of None \<Rightarrow> ''undefined'' | Some s \<Rightarrow> s)"

definition first_candidate_parts :: "GenerateContentResponse \<Rightarrow> part list option" where
  \<comment> \<open>\<^verbatim>\<open>response.candidates?.[0]?.content?.parts\<close>\<close>
  "first_candidate_parts response =
     (case candidates response of
        None \<Rightarrow> None
      | Some [] \<Rightarrow> None
      | Some (c # _) \<Rightarrow>
         (case candidate_content c of
            None \<Rightarrow> None
          | Some ct \<Rightarrow> parts ct))"

definition no_text_placeholder :: string where
  "no_text_placeholder = ''No text response received.''"

definition text_or_placeholder :: "string option \<Rightarrow> string" where
  \<comment> \<open>\<^verbatim>\<open>textResponse || 'No text response received.'\<close>: undefined and the empty string are falsy\<close>
  "text_or_placeholder t =
     (case t of None \<Rightarrow> no_text_placeholder
      | Some s \<Rightarrow> if s = [] then no_text_placeholder else s)"

definition no_image_message :: "string \<Rightarrow> string" where
  \<open>no_image_message t =
     ''The AI model responded with text instead of an image: "'' @ t @ ''"''\<close>

definition processGeminiResponse ::
  "GenerateContentResponse \<Rightarrow> log_entry list \<times> (thrown + string)" where
  "processGeminiResponse response =
     (let imagePartFromResponse =
            (case first_candidate_parts response of
               None \<Rightarrow> None
             | Some ps \<Rightarrow> find (\<lambda>p. inlineData p \<noteq> None) ps)
      in case (case imagePartFromResponse of None \<Rightarrow> None | Some p \<Rightarrow> inlineData p) of
           Some b \<Rightarrow>
             ([], Inr (''data:'' @ interpolate (blob_mimeType b) @ '';base64,''
                         @ interpolate (blob_data b)))
         | None \<Rightarrow>
             (let textResponse = response_text response
              in ([ApiNoImage textResponse],
                  Inl (Error (no_image_message (text_or_placeholder textResponse))))))"

definition buildRequest :: "ImagePayload \<Rightarrow> ImagePayload \<Rightarrow> string \<Rightarrow> GenerationRequest" where
  \<comment> \<open>lines 58-86: the argument of \<^verbatim>\<open>ai.models.generateContent\<close>\<close>
  "buildRequest personImage productImage prompt =
     \<lparr>model = ''gemini-2.5-flash-image-preview'',
      contents = [InlineDataPart \<lparr>mimeType = mimeType personImage, data = data personImage\<rparr>,
                  InlineDataPart \<lparr>mimeType = mimeType productImage, data = data productImage\<rparr>,
                  TextPart prompt],
      responseModalities = [IMAGE, TEXT]\<rparr>"

definition prepareRequest :: "string \<Rightarrow> string \<Rightarrow> string \<Rightarrow> thrown + GenerationRequest" where
  \<comment> \<open>the \<^verbatim>\<open>try\<close> block up to the \<^verbatim>\<open>await\<close>: both images are parsed, the person's first\<close>
  "prepareRequest personImageDataUrl productImageDataUrl prompt =
     (case parseDataUrl personImageDataUrl of
        Inl e \<Rightarrow> Inl e
      | Inr personImage \<Rightarrow>
         (case parseDataUrl productImageDataUrl of
            Inl e \<Rightarrow> Inl e
          | Inr productImage \<Rightarrow> Inr (buildRequest personImage productImage prompt)))"

definition generation_failed_message :: "string \<Rightarrow> string" where
  "generation_failed_message errorMessage =
     ''The AI model failed to generate an image. Details: '' @ errorMessage"

definition catchAndWrap :: "thrown \<Rightarrow> log_entry list \<times> (thrown + string)" where
  \<comment> \<open>the \<^verbatim>\<open>catch\<close> block of generateProductScene\<close>
  "catchAndWrap error =
     (let errorMessage = (case error of Error m \<Rightarrow> m | NonError j \<Rightarrow> j)
      in ([Unrecoverable error], Inl (Error (generation_failed_message errorMessage))))"

definition afterRemote ::
  "thrown + GenerateContentResponse \<Rightarrow> log_entry list \<times> (thrown + string)" where
  \<comment> \<open>what follows the \<^verbatim>\<open>await\<close>, given how the remote call settled
      (\<open>Inl\<close>: rejected with that value, \<open>Inr\<close>: resolved with that response)\<close>
  "afterRemote settled =
     (case settled of
        Inl e \<Rightarrow> catchAndWrap e
      | Inr response \<Rightarrow>
         (case processGeminiResponse response of
            (logs, Inr url) \<Rightarrow> (logs, Inr url)
          | (logs, Inl e) \<Rightarrow> (case catchAndWrap e of (logs', r) \<Rightarrow> (logs @ logs', r))))"

text \<open>
  The body of the \<^verbatim>\<open>try\<close> block alone, with the remote service as a function from the
  request to how the call settles: what is raised inside the pipeline, before the
  \<^verbatim>\<open>catch\<close> block sees it.
\<close>

definition tryBody ::
  "(GenerationRequest \<Rightarrow> thrown + GenerateContentResponse) \<Rightarrow>
     string \<Rightarrow> string \<Rightarrow> string \<Rightarrow> thrown + string" where
  "tryBody remote personImageDataUrl productImageDataUrl prompt =
     (case prepareRequest personImageDataUrl productImageDataUrl prompt of
        Inl e \<Rightarrow> Inl e
      | Inr request \<Rightarrow>
         (case remote request of
            Inl e \<Rightarrow> Inl e
          | Inr response \<Rightarrow> snd (processGeminiResponse response)))"

record service_run =
  logged :: "log_entry list"
  called :: "GenerationRequest list"
  outcome :: "thrown + string"

definition generateProductScene ::
  "(GenerationRequest \<Rightarrow> thrown + GenerateContentResponse) \<Rightarrow>
     string \<Rightarrow> string \<Rightarrow> string \<Rightarrow> service_run" where
  "generateProductScene remote personImageDataUrl productImageDataUrl prompt =
     (case prepareRequest personImageDataUrl productImageDataUrl prompt of
        Inl e \<Rightarrow>
          (case catchAndWrap e of (logs, r) \<Rightarrow> \<lparr>logged = logs, called = [], outcome = r\<rparr>)
      | Inr request \<Rightarrow>
          (case afterRemote (remote request) of
             (logs, r) \<Rightarrow> \<lparr>logged = logs, called = [request], outcome = r\<rparr>))"

section \<open>App.tsx\<close>

datatype app_state = Idle | Generating | Results | ErrorState

datatype prompt_option = Lifestyle | Fashion | Custom

definition PROMPT_OPTIONS :: "prompt_option \<Rightarrow> string option" where
  "PROMPT_OPTIONS option =
     (case option of
        Lifestyle \<Rightarrow> Some (''Create a photorealistic lifestyle image of the person happily ''
                           @ ''using the product in a bright, modern living room.'')
      | Fashion \<Rightarrow> Some (''Generate a high-fashion studio shot of the person modeling ''
                         @ ''the product against a clean, minimalist background.'')
      | Custom \<Rightarrow> None)"

definition default_prompt :: string where
  \<comment> \<open>\<^verbatim>\<open>PROMPT_OPTIONS.lifestyle\<close>\<close>
  "default_prompt = (case PROMPT_OPTIONS Lifestyle of Some p \<Rightarrow> p | None \<Rightarrow> [])"

text \<open>
  The component's state: the eight \<^verbatim>\<open>useState\<close> cells and the mutable
  \<^verbatim>\<open>generationCancelledRef.current\<close>.
\<close>

record App =
  personImage :: "string option"
  productImage :: "string option"
  promptOption :: prompt_option
  prompt :: string
  generatedImage :: "string option"
  isLoading :: bool
  error :: "string option"
  appState :: app_state
  generationCancelledRef :: bool

definition initial_app :: App where
  "initial_app =
     \<lparr>personImage = None, productImage = None, promptOption = Lifestyle,
      prompt = default_prompt, generatedImage = None, isLoading = False, error = None,
      appState = Idle, generationCancelledRef = False\<rparr>"

text \<open>
  What the component does to the outside, in the order it does it: remote calls, timers,
  console output, and the calls of \<^verbatim>\<open>setError\<close> (the status line the user sees).
\<close>

datatype effect =
    RemoteCall GenerationRequest
  | SetTimeout nat
  | SetError "string option"
  | ConsoleError log_entry

text \<open>
  An invocation of the async function \<^verbatim>\<open>handleGenerate\<close> is suspended at one of its two
  \<^verbatim>\<open>await\<close>s, holding the loop counter and the three values its closure captured
  (\<^verbatim>\<open>personImage\<close>, \<^verbatim>\<open>productImage\<close>, \<^verbatim>\<open>prompt\<close>), or it has returned.
\<close>

datatype task =
    AwaitingRemote nat string string string
  | AwaitingTimeout nat string string string
  | Returned

record world =
  app :: App
  tasks :: "task list"
  trace :: "effect list"

definition initial_world :: world where
  "initial_world = \<lparr>app = initial_app, tasks = [], trace = []\<rparr>"

definition emit :: "effect \<Rightarrow> world \<Rightarrow> world" where
  "emit e w = w\<lparr>trace := trace w @ [e]\<rparr>"

definition consoleError :: "log_entry \<Rightarrow> world \<Rightarrow> world" where
  "consoleError l = emit (ConsoleError l)"

definition setPersonImage :: "string option \<Rightarrow> world \<Rightarrow> world" where
  "setPersonImage v w = w\<lparr>app := (app w)\<lparr>personImage := v\<rparr>\<rparr>"

definition setProductImage :: "string option \<Rightarrow> world \<Rightarrow> world" where
  "setProductImage v w = w\<lparr>app := (app w)\<lparr>productImage := v\<rparr>\<rparr>"

definition setPromptOption :: "prompt_option \<Rightarrow> world \<Rightarrow> world" where
  "setPromptOption v w = w\<lparr>app := (app w)\<lparr>promptOption := v\<rparr>\<rparr>"

definition setPrompt :: "string \<Rightarrow> world \<Rightarrow> world" where
  "setPrompt v w = w\<lparr>app := (app w)\<lparr>prompt := v\<rparr>\<rparr>"

definition setGeneratedImage :: "string option \<Rightarrow> world \<Rightarrow> world" where
  "setGeneratedImage v w = w\<lparr>app := (app w)\<lparr>generatedImage := v\<rparr>\<rparr>"

definition setIsLoading :: "bool \<Rightarrow> world \<Rightarrow> world" where
  "setIsLoading v w = w\<lparr>app := (app w)\<lparr>isLoading := v\<rparr>\<rparr>"

definition setError :: "string option \<Rightarrow> world \<Rightarrow> world" where
  "setError v w = emit (SetError v) (w\<lparr>app := (app w)\<lparr>error := v\<rparr>\<rparr>)"

definition setAppState :: "app_state \<Rightarrow> world \<Rightarrow> world" where
  "setAppState v w = w\<lparr>app := (app w)\<lparr>appState := v\<rparr>\<rparr>"

definition setGenerationCancelled :: "bool \<Rightarrow> world \<Rightarrow> world" where
  \<comment> \<open>\<^verbatim>\<open>generationCancelledRef.current = v\<close>\<close>
  "setGenerationCancelled v w = w\<lparr>app := (app w)\<lparr>generationCancelledRef := v\<rparr>\<rparr>"

definition setTask :: "nat \<Rightarrow> task \<Rightarrow> world \<Rightarrow> world" where
  "setTask i t w = w\<lparr>tasks := (tasks w)[i := t]\<rparr>"

definition block :: "(world \<Rightarrow> world) list \<Rightarrow> world \<Rightarrow> world" where
  \<comment> \<open>statements run one after the other\<close>
  "block stmts w = fold (\<lambda>stmt. stmt) stmts w"

definition truthy :: "string option \<Rightarrow> bool" where
  \<comment> \<open>a \<^verbatim>\<open>string | null\<close> as a condition: \<^verbatim>\<open>null\<close> and the empty string are falsy\<close>
  "truthy x = (case x of None \<Rightarrow> False | Some s \<Rightarrow> s \<noteq> [])"

definition MAX_ATTEMPTS :: nat where
  "MAX_ATTEMPTS = 3"

fun show_nat :: "nat \<Rightarrow> string" where
  "show_nat n =
     (if n < 10 then [''0123456789'' ! n]
      else show_nat (n div 10) @ [''0123456789'' ! (n mod 10)])"

declare show_nat.simps [simp del]

definition retry_message :: "nat \<Rightarrow> string" where
  "retry_message attempt =
     ''That didn't work, trying again... (Attempt '' @ show_nat attempt @ ''/''
       @ show_nat MAX_ATTEMPTS @ '')''"

definition terminal_message :: string where
  "terminal_message =
     ''Sorry, the AI couldn't create an image. Please try different images or a new prompt.''"

definition caught_message :: "thrown \<Rightarrow> string" where
  \<comment> \<open>\<^verbatim>\<open>err instanceof Error ? err.message : "An unknown error occurred."\<close>\<close>
  "caught_message err =
     (case err of Error m \<Rightarrow> m | NonError _ \<Rightarrow> ''An unknown error occurred.'')"

definition catchBlock ::
  "nat \<Rightarrow> nat \<Rightarrow> string \<Rightarrow> string \<Rightarrow> string \<Rightarrow> thrown \<Rightarrow> world \<Rightarrow> world" where
  \<comment> \<open>lines 170-185 of the invocation in slot \<open>i\<close>, up to its next suspension or return\<close>
  "catchBlock i attempt person product pr err w =
     (if generationCancelledRef (app w) then setTask i Returned w
      else
        let errorMessage = caught_message err;
            w1 = consoleError (AttemptFailed attempt errorMessage) w
        in if attempt = MAX_ATTEMPTS
           then block [setError (Some terminal_message), setIsLoading False,
                       setAppState ErrorState, setTask i Returned] w1
           else block [emit (SetTimeout 2000),
                       setTask i (AwaitingTimeout attempt person product pr)] w1)"

definition afterAwait ::
  "nat \<Rightarrow> nat \<Rightarrow> string \<Rightarrow> string \<Rightarrow> string \<Rightarrow>
     log_entry list \<times> (thrown + string) \<Rightarrow> world \<Rightarrow> world" where
  \<comment> \<open>lines 161-185: generateProductScene has settled, with its console output\<close>
  "afterAwait i attempt person product pr settled w =
     (case settled of
        (logs, r) \<Rightarrow>
          (let w0 = block (map consoleError logs) w
           in case r of
                Inr resultUrl \<Rightarrow>
                  if generationCancelledRef (app w0) then setTask i Returned w0
                  else block [setGeneratedImage (Some resultUrl), setError None,
                              setIsLoading False, setAppState Results,
                              setTask i Returned] w0
              | Inl err \<Rightarrow> catchBlock i attempt person product pr err w0))"

definition loopIteration ::
  "nat \<Rightarrow> nat \<Rightarrow> string \<Rightarrow> string \<Rightarrow> string \<Rightarrow> world \<Rightarrow> world" where
  \<comment> \<open>lines 153-161: the loop test and the body up to the \<^verbatim>\<open>await\<close> of the remote call.
      When an image does not parse, generateProductScene rejects without a remote call and
      the \<^verbatim>\<open>catch\<close> block follows in a microtask, before any other event.\<close>
  "loopIteration i attempt person product pr w =
     (if \<not> attempt \<le> MAX_ATTEMPTS then setTask i Returned w
      else if generationCancelledRef (app w) then setTask i Returned w
      else
        let w1 = (if attempt > 1 then setError (Some (retry_message attempt)) w else w)
        in case prepareRequest person product pr of
             Inl e \<Rightarrow> afterAwait i attempt person product pr (catchAndWrap e) w1
           | Inr request \<Rightarrow>
               block [emit (RemoteCall request),
                      setTask i (AwaitingRemote attempt person product pr)] w1)"

definition handleGenerate :: "world \<Rightarrow> world" where
  "handleGenerate w =
     (case (personImage (app w), productImage (app w)) of
        (Some person, Some product) \<Rightarrow>
          if person = [] \<or> product = [] then w
          else block [setIsLoading True, setGeneratedImage None, setError None,
                      setAppState Generating, setGenerationCancelled False,
                      (\<lambda>w'. w'\<lparr>tasks := tasks w' @ [Returned]\<rparr>),
                      loopIteration (length (tasks w)) 1 person product (prompt (app w))] w
      | _ \<Rightarrow> w)"

definition handleCancel :: "world \<Rightarrow> world" where
  "handleCancel =
     block [setGenerationCancelled True, setIsLoading False, setAppState Idle,
            setError None, setGeneratedImage None]"

definition handleReset :: "world \<Rightarrow> world" where
  "handleReset =
     block [setGenerationCancelled True, setPersonImage None, setProductImage None,
            setGeneratedImage None, setError None, setIsLoading False, setAppState Idle,
            setPromptOption Lifestyle, setPrompt default_prompt]"

definition handlePromptOptionChange :: "prompt_option \<Rightarrow> world \<Rightarrow> world" where
  "handlePromptOptionChange option w =
     (let w1 = setPromptOption option w
      in case PROMPT_OPTIONS option of Some p \<Rightarrow> setPrompt p w1 | None \<Rightarrow> w1)"

subsection \<open>Events\<close>

text \<open>
  Between two suspensions the component reacts to one event at a time: a file has been
  read, a control that is rendered in the current state is used, the remote call of a
  suspended invocation settles, or its timer fires. A control that is not rendered, or
  is disabled, does nothing.
\<close>

datatype image_kind = Person | Product

datatype event =
    FileLoaded image_kind "string option"
  | ClearImage image_kind
  | SelectPromptOption prompt_option
  | EditPrompt string
  | ClickMainButton
  | ClickCancel
  | ClickStartOver
  | RemoteSettles nat "thrown + GenerateContentResponse"
  | TimerFires nat

definition start_over_rendered :: "App \<Rightarrow> bool" where
  "start_over_rendered a \<longleftrightarrow>
     appState a \<in> {Generating, Results, ErrorState} \<and> truthy (generatedImage a)
       \<and> \<not> isLoading a \<and> \<not> truthy (error a)"

fun step :: "world \<Rightarrow> event \<Rightarrow> world" where
  "step w (FileLoaded Person v) = setPersonImage v w"
| "step w (FileLoaded Product v) = setProductImage v w"
| "step w (ClearImage Person) =
     (if truthy (personImage (app w)) then setPersonImage None w else w)"
| "step w (ClearImage Product) =
     (if truthy (productImage (app w)) then setProductImage None w else w)"
| "step w (SelectPromptOption option) = handlePromptOptionChange option w"
| "step w (EditPrompt p) =
     (if promptOption (app w) = Custom then setPrompt p w else w)"
| "step w ClickMainButton =
     (if appState (app w) = Generating then w
      else if \<not> truthy (productImage (app w)) \<or> \<not> truthy (personImage (app w)) then w
      else if appState (app w) = ErrorState then handleReset w
      else handleGenerate w)"
| "step w ClickCancel =
     (if appState (app w) = Generating then handleCancel w else w)"
| "step w ClickStartOver =
     (if start_over_rendered (app w) then handleReset w else w)"
| "step w (RemoteSettles i settled) =
     (if i < length (tasks w)
      then (case tasks w ! i of
              AwaitingRemote attempt person product pr \<Rightarrow>
                afterAwait i attempt person product pr (afterRemote settled) w
            | _ \<Rightarrow> w)
      else w)"
| "step w (TimerFires i) =
     (if i < length (tasks w)
      then (case tasks w ! i of
              AwaitingTimeout attempt person product pr \<Rightarrow>
                loopIteration i (attempt + 1) person product pr w
            | _ \<Rightarrow> w)
      else w)"

definition run :: "world \<Rightarrow> event list \<Rightarrow> world" where
  "run w evs = foldl step w evs"

section \<open>Notions of the specification\<close>

text \<open>
  The language of \<^verbatim>\<open>^data:(image\/\w+);base64,(.*)$\<close>, read off the pattern: the literal
  \<^verbatim>\<open>data:image/\<close>, one or more word characters, the literal \<^verbatim>\<open>;base64,\<close>, and up to the end
  of the input any characters that are not line terminators.
\<close>

definition matches_data_url_pattern :: "string \<Rightarrow> bool" where
  "matches_data_url_pattern s \<longleftrightarrow>
     (\<exists>w d. s = ''data:image/'' @ w @ '';base64,'' @ d \<and> w \<noteq> []
        \<and> list_all is_word_char w \<and> \<not> list_ex is_line_terminator d)"

definition is_image_mime :: "string \<Rightarrow> bool" where
  \<comment> \<open>the whole string matches \<^verbatim>\<open>image/\w+\<close>\<close>
  "is_image_mime m =
     (case strip_prefix ''image/'' m of
        None \<Rightarrow> False
      | Some w \<Rightarrow> w \<noteq> [] \<and> list_all is_word_char w)"

definition is_base64_char :: "char \<Rightarrow> bool" where
  "is_base64_char c \<longleftrightarrow>
     c \<in> set (''abcdefghijklmnopqrstuvwxyz'' @ ''ABCDEFGHIJKLMNOPQRSTUVWXYZ'' @ ''0123456789+/='')"

definition is_base64 :: "string \<Rightarrow> bool" where
  "is_base64 d = list_all is_base64_char d"

definition payload_invariant :: "ImagePayload \<Rightarrow> bool" where
  \<comment> \<open>the invariant the specification gives for ImagePayload\<close>
  "payload_invariant p \<longleftrightarrow>
     is_image_mime (mimeType p) \<and> data p \<noteq> [] \<and> is_base64 (data p)"

definition no_inline_data_part :: "GenerateContentResponse \<Rightarrow> bool" where
  \<comment> \<open>the first candidate has no part with inline data (or there is no first candidate,
      or it has no content or no parts)\<close>
  "no_inline_data_part response =
     (case first_candidate_parts response of
        None \<Rightarrow> True
      | Some ps \<Rightarrow> list_all (\<lambda>p. inlineData p = None) ps)"

definition remote_fails :: "thrown + GenerateContentResponse \<Rightarrow> bool" where
  \<comment> \<open>the remote call rejects, or answers without an image\<close>
  "remote_fails settled =
     (case settled of Inl _ \<Rightarrow> True | Inr response \<Rightarrow> no_inline_data_part response)"

text \<open>
  Of a trace: the remote calls and timers, in order; and the messages handed to
  \<^verbatim>\<open>setError\<close>, in order.
\<close>

definition calls_and_waits :: "effect list \<Rightarrow> effect list" where
  "calls_and_waits tr =
     filter (\<lambda>e. case e of RemoteCall _ \<Rightarrow> True | SetTimeout _ \<Rightarrow> True | _ \<Rightarrow> False) tr"

fun statuses_shown :: "effect list \<Rightarrow> string list" where
  "statuses_shown [] = []"
| "statuses_shown (SetError (Some m) # tr) = m # statuses_shown tr"
| "statuses_shown (_ # tr) = statuses_shown tr"

definition remote_succeeds_with :: "thrown + GenerateContentResponse \<Rightarrow> string \<Rightarrow> bool" where
  "remote_succeeds_with settled url =
     (case settled of
        Inl _ \<Rightarrow> False
      | Inr response \<Rightarrow> snd (processGeminiResponse response) = Inr url)"


subsection \<open>Concrete inputs\<close>

definition example_person :: string where
  "example_person = ''data:image/png;base64,AAAA''"

definition example_product :: string where
  "example_product = ''data:image/jpeg;base64,BBBB''"

definition example_svg :: string where
  "example_svg = ''data:image/svg+xml;base64,PHN2Zz4=''"

definition example_request :: GenerationRequest where
  "example_request =
     \<lparr>model = ''gemini-2.5-flash-image-preview'',
      contents = [InlineDataPart \<lparr>mimeType = ''image/png'', data = ''AAAA''\<rparr>,
                  InlineDataPart \<lparr>mimeType = ''image/jpeg'', data = ''BBBB''\<rparr>,
                  TextPart default_prompt],
      responseModalities = [IMAGE, TEXT]\<rparr>"

definition text_only_response :: GenerateContentResponse where
  "text_only_response =
     \<lparr>candidates = Some [\<lparr>candidate_content = Some \<lparr>parts = Some
        [\<lparr>inlineData = None, part_text = Some ''I can't do that''\<rparr>]\<rparr>\<rparr>],
      response_text = Some ''I can't do that''\<rparr>"

definition image_response :: GenerateContentResponse where
  "image_response =
     \<lparr>candidates = Some [\<lparr>candidate_content = Some \<lparr>parts = Some
        [\<lparr>inlineData = None, part_text = Some ''Here you are''\<rparr>,
         \<lparr>inlineData = Some (Blob (Some ''image/png'') (Some ''CCCC'')), part_text = None\<rparr>]\<rparr>\<rparr>],
      response_text = Some ''Here you are''\<rparr>"

definition loaded_world :: world where
  "loaded_world =
     run initial_world [FileLoaded Person (Some example_person),
                        FileLoaded Product (Some example_product)]"


definition svg_world :: world where
  "svg_world =
     run initial_world [FileLoaded Person (Some example_svg),
                        FileLoaded Product (Some example_product)]"

definition results_world :: world where
  "results_world = run loaded_world [ClickMainButton, RemoteSettles 0 (Inr image_response)]"

section \<open>The image codec\<close>

lemma strip_prefix_iff: "strip_prefix p s = Some r \<longleftrightarrow> s = p @ r"
  by (induction p s rule: strip_prefix.induct) auto

lemma strip_prefix_append [simp]: "strip_prefix p (p @ r) = Some r"
  by (simp add: strip_prefix_iff)

lemma semicolon_no_word_char: "\<not> is_word_char CHR '';''"
  by (simp add: is_word_char_def)

lemma takeWhile_word_run:
  assumes "list_all is_word_char w"
  shows "takeWhile is_word_char (w @ CHR '';'' # r) = w"
    and "dropWhile is_word_char (w @ CHR '';'' # r) = CHR '';'' # r"
  using assms semicolon_no_word_char by (simp_all add: list_all_iff)

lemma match_data_url_built:
  assumes "w \<noteq> []" "list_all is_word_char w" "\<not> list_ex is_line_terminator d"
  shows "match_data_url (''data:image/'' @ w @ '';base64,'' @ d) = Some (''image/'' @ w, d)"
  using assms by (simp add: match_data_url_def takeWhile_word_run)

lemma match_data_url_SomeD:
  assumes "match_data_url s = Some (m, d)"
  shows "\<exists>w. m = ''image/'' @ w \<and> w \<noteq> [] \<and> list_all is_word_char w
           \<and> \<not> list_ex is_line_terminator d \<and> s = ''data:'' @ m @ '';base64,'' @ d"
proof -
  from assms obtain r1 r2 where r1: "s = ''data:'' @ r1" and r2: "r1 = ''image/'' @ r2"
    and w: "takeWhile is_word_char r2 \<noteq> []"
    and r3: "dropWhile is_word_char r2 = '';base64,'' @ d"
    and d: "\<not> list_ex is_line_terminator d"
    and m: "m = ''image/'' @ takeWhile is_word_char r2"
    unfolding match_data_url_def
    by (auto simp: strip_prefix_iff Let_def split: option.splits if_splits)
  have "r2 = takeWhile is_word_char r2 @ dropWhile is_word_char r2"
    by simp
  with r3 have "r2 = takeWhile is_word_char r2 @ '';base64,'' @ d"
    by simp
  moreover have "list_all is_word_char (takeWhile is_word_char r2)"
    by (simp add: list_all_iff) (meson set_takeWhileD)
  ultimately show ?thesis
    using r1 r2 w d m by (intro exI [of _ "takeWhile is_word_char r2"]) simp
qed

lemma match_data_url_None_iff:
  "match_data_url s = None \<longleftrightarrow> \<not> matches_data_url_pattern s"
proof (cases "match_data_url s")
  case None
  have "\<not> matches_data_url_pattern s"
  proof
    assume "matches_data_url_pattern s"
    then obtain w d where "s = ''data:image/'' @ w @ '';base64,'' @ d" "w \<noteq> []"
      "list_all is_word_char w" "\<not> list_ex is_line_terminator d"
      unfolding matches_data_url_pattern_def by blast
    then have "match_data_url s = Some (''image/'' @ w, d)"
      using match_data_url_built [of w d] by simp
    with None show False
      by simp
  qed
  with None show ?thesis
    by simp
next
  case (Some md)
  then have "match_data_url s = Some (fst md, snd md)"
    by simp
  from match_data_url_SomeD [OF this] obtain w where "fst md = ''image/'' @ w" "w \<noteq> []"
    "list_all is_word_char w" "\<not> list_ex is_line_terminator (snd md)"
    "s = ''data:'' @ fst md @ '';base64,'' @ snd md"
    by blast
  then have "matches_data_url_pattern s"
    unfolding matches_data_url_pattern_def by (intro exI [of _ w] exI [of _ "snd md"]) simp
  with Some show ?thesis
    by simp
qed

lemma is_image_mime_iff:
  "is_image_mime m \<longleftrightarrow> (\<exists>w. m = ''image/'' @ w \<and> w \<noteq> [] \<and> list_all is_word_char w)"
  unfolding is_image_mime_def by (auto simp: strip_prefix_iff split: option.splits)

lemma line_terminator_not_base64: "is_line_terminator c \<Longrightarrow> \<not> is_base64_char c"
  by (auto simp: is_line_terminator_def is_base64_char_def)

lemma base64_no_line_terminator: "is_base64 d \<Longrightarrow> \<not> list_ex is_line_terminator d"
  unfolding is_base64_def list_all_iff list_ex_iff
  using line_terminator_not_base64 by blast

text \<open>
  C7. For every mimeType matching \<^verbatim>\<open>image/\w+\<close> and every base64 text data, parseDataUrl
  applied to \<^verbatim>\<open>"data:" + mimeType + ";base64," + data\<close> returns exactly the pair of the two.
\<close>

theorem parseDataUrl_roundtrip:
  assumes "is_image_mime m" and "is_base64 d"
  shows "parseDataUrl (''data:'' @ m @ '';base64,'' @ d) = Inr \<lparr>mimeType = m, data = d\<rparr>"
proof -
  from assms(1) obtain w where w: "m = ''image/'' @ w" "w \<noteq> []" "list_all is_word_char w"
    unfolding is_image_mime_iff by blast
  have "match_data_url (''data:image/'' @ w @ '';base64,'' @ d) = Some (''image/'' @ w, d)"
    using w base64_no_line_terminator [OF assms(2)] by (rule_tac match_data_url_built)
  then show ?thesis
    unfolding parseDataUrl_def w(1) by simp
qed

theorem parseDataUrl_roundtrip_witness:
  "is_image_mime ''image/png'' \<and> is_base64 ''iVBORw0KGgo='' \<and>
   parseDataUrl ''data:image/png;base64,iVBORw0KGgo=''
     = Inr \<lparr>mimeType = ''image/png'', data = ''iVBORw0KGgo=''\<rparr>"
proof -
  have m: "is_image_mime ''image/png''"
    by (simp add: is_image_mime_def is_word_char_def)
  have d: "is_base64 ''iVBORw0KGgo=''"
    by (simp add: is_base64_def is_base64_char_def)
  from parseDataUrl_roundtrip [OF m d] m d show ?thesis
    by simp
qed

lemma parseDataUrl_no_match:
  assumes "\<not> matches_data_url_pattern s"
  shows "parseDataUrl s = Inl (Error invalid_format_message)"
proof -
  from assms have "match_data_url s = None"
    by (simp add: match_data_url_None_iff)
  then show ?thesis
    by (simp add: parseDataUrl_def)
qed

text \<open>
  C8. For every string that does not match \<^verbatim>\<open>^data:image/\w+;base64,.*$\<close>, parseDataUrl
  throws the error whose message describes the expected shape; the function is pure, its
  only result is the value returned or thrown.
\<close>

theorem parseDataUrl_rejects:
  assumes "\<not> matches_data_url_pattern s"
  shows "parseDataUrl s =
           Inl (Error (''Invalid image data URL format. Expected 'data:image/...;base64,...''
                         @ [CHR 0x27]))"
  using parseDataUrl_no_match [OF assms] by (simp add: invalid_format_message_def)

theorem parseDataUrl_rejects_witness:
  "\<not> matches_data_url_pattern ''data:image/svg+xml;base64,PHN2Zz4='' \<and>
   parseDataUrl ''data:image/svg+xml;base64,PHN2Zz4='' =
     Inl (Error (''Invalid image data URL format. Expected 'data:image/...;base64,...''
                   @ [CHR 0x27]))"
proof -
  have "match_data_url ''data:image/svg+xml;base64,PHN2Zz4='' = None"
    by (simp add: match_data_url_def is_word_char_def)
  then have no: "\<not> matches_data_url_pattern ''data:image/svg+xml;base64,PHN2Zz4=''"
    by (rule iffD1 [OF match_data_url_None_iff])
  from no parseDataUrl_rejects [OF no] show ?thesis
    by (rule conjI)
qed

text \<open>
  C9, as the code has it. Every payload that parseDataUrl returns has a mimeType matching
  \<^verbatim>\<open>image/\w+\<close> and as data the rest of the input after \<^verbatim>\<open>;base64,\<close>, free of line
  terminators. The data may be empty, and nothing checks that it is base64 text.
\<close>

theorem parseDataUrl_payload:
  assumes "parseDataUrl s = Inr p"
  shows "is_image_mime (mimeType p) \<and> \<not> list_ex is_line_terminator (data p)
           \<and> s = ''data:'' @ mimeType p @ '';base64,'' @ data p"
proof -
  from assms obtain m d where md: "match_data_url s = Some (m, d)"
    and p: "p = \<lparr>mimeType = m, data = d\<rparr>"
    unfolding parseDataUrl_def by (auto split: option.splits)
  from match_data_url_SomeD [OF md] show ?thesis
    unfolding p is_image_mime_iff by auto
qed

theorem parseDataUrl_payload_witness:
  "parseDataUrl ''data:image/png;base64,AAAA'' = Inr \<lparr>mimeType = ''image/png'', data = ''AAAA''\<rparr>
   \<and> is_image_mime ''image/png'' \<and> \<not> list_ex is_line_terminator ''AAAA''"
proof -
  have eq: "parseDataUrl ''data:image/png;base64,AAAA''
              = Inr \<lparr>mimeType = ''image/png'', data = ''AAAA''\<rparr>"
    by (simp add: parseDataUrl_def match_data_url_def is_word_char_def is_line_terminator_def)
  from parseDataUrl_payload [OF eq] eq show ?thesis
    by simp
qed

text \<open>
  The invariant of the specification fails on the payload of a data URL with nothing after
  the comma: its data is empty.
\<close>

theorem parseDataUrl_empty_data:
  "parseDataUrl ''data:image/png;base64,'' = Inr \<lparr>mimeType = ''image/png'', data = []\<rparr>
   \<and> \<not> payload_invariant \<lparr>mimeType = ''image/png'', data = []\<rparr>"
  by (simp add: parseDataUrl_def match_data_url_def is_word_char_def payload_invariant_def)

section \<open>The generation service\<close>

lemmas setters =
  setPersonImage_def setProductImage_def setPromptOption_def setPrompt_def
  setGeneratedImage_def setIsLoading_def setError_def setAppState_def
  setGenerationCancelled_def setTask_def emit_def consoleError_def

lemmas examples =
  example_person_def example_product_def example_svg_def example_request_def
  text_only_response_def image_response_def

lemma loaded_world_eq:
  "loaded_world =
     \<lparr>app = initial_app\<lparr>personImage := Some example_person, productImage := Some example_product\<rparr>,
      tasks = [], trace = []\<rparr>"
  by (simp add: loaded_world_def run_def initial_world_def setters)

lemma parse_example_person:
  "parseDataUrl example_person = Inr \<lparr>mimeType = ''image/png'', data = ''AAAA''\<rparr>"
  by (simp add: example_person_def parseDataUrl_def match_data_url_def is_word_char_def
      is_line_terminator_def)

lemma parse_example_product:
  "parseDataUrl example_product = Inr \<lparr>mimeType = ''image/jpeg'', data = ''BBBB''\<rparr>"
  by (simp add: example_product_def parseDataUrl_def match_data_url_def is_word_char_def
      is_line_terminator_def)

lemma prepare_example: "prepareRequest example_person example_product default_prompt = Inr example_request"
  by (simp add: prepareRequest_def parse_example_person parse_example_product buildRequest_def
      example_request_def)

lemma text_only_no_inline: "no_inline_data_part text_only_response"
  by (simp add: no_inline_data_part_def first_candidate_parts_def text_only_response_def)

lemma image_response_url:
  "processGeminiResponse image_response = ([], Inr ''data:image/png;base64,CCCC'')"
  by (simp add: processGeminiResponse_def first_candidate_parts_def image_response_def
      interpolate_def Let_def)



lemma processGeminiResponse_no_image:
  assumes "no_inline_data_part response"
  shows "processGeminiResponse response =
           ([ApiNoImage (response_text response)],
            Inl (Error (no_image_message (text_or_placeholder (response_text response)))))"
proof (cases "first_candidate_parts response")
  case None
  then show ?thesis
    by (simp add: processGeminiResponse_def Let_def)
next
  case (Some ps)
  with assms have "list_all (\<lambda>p. inlineData p = None) ps"
    by (simp add: no_inline_data_part_def)
  then have "find (\<lambda>p. inlineData p \<noteq> None) ps = None"
    by (simp add: find_None_iff list_all_iff)
  with Some show ?thesis
    by (simp add: processGeminiResponse_def Let_def del: not_None_eq)
qed

lemma processGeminiResponse_image:
  assumes "first_candidate_parts response = Some ps"
    and "find (\<lambda>p. inlineData p \<noteq> None) ps = Some pt" and "inlineData pt = Some b"
  shows "processGeminiResponse response =
           ([], Inr (''data:'' @ interpolate (blob_mimeType b) @ '';base64,''
                       @ interpolate (blob_data b)))"
  using assms by (simp add: processGeminiResponse_def Let_def del: not_None_eq)

lemma generateProductScene_catch:
  "outcome (generateProductScene remote p q pr) =
     (case tryBody remote p q pr of
        Inl cause \<Rightarrow> Inl (Error (generation_failed_message
                                   (case cause of Error m \<Rightarrow> m | NonError j \<Rightarrow> j)))
      | Inr url \<Rightarrow> Inr url)"
  unfolding generateProductScene_def tryBody_def afterRemote_def catchAndWrap_def
  by (simp split: sum.splits prod.splits)

lemma tryBody_causes:
  assumes "tryBody remote p q pr = Inl cause"
  shows "parseDataUrl p = Inl cause
       \<or> (\<exists>pp. parseDataUrl p = Inr pp \<and> parseDataUrl q = Inl cause)
       \<or> (\<exists>request. prepareRequest p q pr = Inr request \<and> remote request = Inl cause)
       \<or> (\<exists>request response. prepareRequest p q pr = Inr request
             \<and> remote request = Inr response \<and> snd (processGeminiResponse response) = Inl cause)"
  using assms unfolding tryBody_def prepareRequest_def
  by (auto split: sum.splits)



text \<open>
  C10. For a response whose first candidate has no part with inline data,
  processGeminiResponse throws the error whose message quotes the aggregate text of the
  response, or the placeholder \<^verbatim>\<open>No text response received.\<close> when there is none, and
  generateProductScene fails with that message embedded; it never returns a data URL.
\<close>

theorem text_only_response_fails:
  assumes "no_inline_data_part response"
    and "prepareRequest p q pr = Inr request"
    and "remote request = Inr response"
  shows "snd (processGeminiResponse response) =
           Inl (Error (''The AI model responded with text instead of an image: '' @ [CHR 0x22]
                  @ (case response_text response of
                       None \<Rightarrow> ''No text response received.''
                     | Some s \<Rightarrow> if s = [] then ''No text response received.'' else s)
                  @ [CHR 0x22]))
       \<and> outcome (generateProductScene remote p q pr) =
           Inl (Error (''The AI model failed to generate an image. Details: ''
                  @ ''The AI model responded with text instead of an image: '' @ [CHR 0x22]
                  @ (case response_text response of
                       None \<Rightarrow> ''No text response received.''
                     | Some s \<Rightarrow> if s = [] then ''No text response received.'' else s)
                  @ [CHR 0x22]))"
proof -
  have "tryBody remote p q pr = snd (processGeminiResponse response)"
    using assms(2,3) by (simp add: tryBody_def)
  then show ?thesis
    using processGeminiResponse_no_image [OF assms(1)]
    by (simp add: generateProductScene_catch generation_failed_message_def no_image_message_def
        text_or_placeholder_def no_text_placeholder_def split: option.splits)
qed

theorem text_only_response_fails_witness:
  "no_inline_data_part text_only_response
   \<and> prepareRequest example_person example_product default_prompt = Inr example_request
   \<and> snd (processGeminiResponse text_only_response) =
         Inl (Error (''The AI model responded with text instead of an image: ''
                @ [CHR 0x22] @ ''I can't do that'' @ [CHR 0x22]))
   \<and> outcome (generateProductScene (\<lambda>request. Inr text_only_response)
                 example_person example_product default_prompt) =
         Inl (Error (''The AI model failed to generate an image. Details: ''
                @ ''The AI model responded with text instead of an image: ''
                @ [CHR 0x22] @ ''I can't do that'' @ [CHR 0x22]))"
proof -
  have r: "(\<lambda>request. Inr text_only_response) example_request
             = (Inr text_only_response :: thrown + GenerateContentResponse)"
    by simp
  have t: "response_text text_only_response = Some ''I can't do that''"
    by (simp add: text_only_response_def)
  from text_only_response_fails [OF text_only_no_inline prepare_example r]
    text_only_no_inline prepare_example
  show ?thesis
    unfolding t by simp
qed

section \<open>The retry loop\<close>

lemma block_consoleError:
  "block (map consoleError logs) w = w\<lparr>trace := trace w @ map ConsoleError logs\<rparr>"
  by (induction logs arbitrary: w) (simp_all add: block_def consoleError_def emit_def)

lemma block_Nil [simp]: "block [] w = w"
  by (simp add: block_def)

lemma block_Cons [simp]: "block (stmt # stmts) w = block stmts (stmt w)"
  by (simp add: block_def)

lemma catchBlock_retry:
  assumes "\<not> generationCancelledRef (app w)" and "attempt \<noteq> MAX_ATTEMPTS"
  shows "catchBlock i attempt p q pr err w =
           w\<lparr>tasks := (tasks w)[i := AwaitingTimeout attempt p q pr],
             trace := trace w @ [ConsoleError (AttemptFailed attempt (caught_message err)),
                                 SetTimeout 2000]\<rparr>"
  using assms by (simp add: catchBlock_def setters caught_message_def Let_def)

lemma catchBlock_final:
  assumes "\<not> generationCancelledRef (app w)"
  shows "catchBlock i MAX_ATTEMPTS p q pr err w =
           w\<lparr>app := (app w)\<lparr>error := Some terminal_message, isLoading := False,
                             appState := ErrorState\<rparr>,
             tasks := (tasks w)[i := Returned],
             trace := trace w @ [ConsoleError (AttemptFailed MAX_ATTEMPTS (caught_message err)),
                                 SetError (Some terminal_message)]\<rparr>"
  using assms by (simp add: catchBlock_def setters caught_message_def Let_def)

lemma afterAwait_cancelled:
  assumes "generationCancelledRef (app w)"
  shows "afterAwait i attempt p q pr (logs, r) w =
           w\<lparr>tasks := (tasks w)[i := Returned], trace := trace w @ map ConsoleError logs\<rparr>"
  using assms
  by (cases r) (simp_all add: afterAwait_def block_consoleError catchBlock_def setters Let_def)

lemma afterAwait_success:
  assumes "\<not> generationCancelledRef (app w)"
  shows "afterAwait i attempt p q pr (logs, Inr url) w =
           w\<lparr>app := (app w)\<lparr>generatedImage := Some url, error := None, isLoading := False,
                             appState := Results\<rparr>,
             tasks := (tasks w)[i := Returned],
             trace := trace w @ map ConsoleError logs @ [SetError None]\<rparr>"
  using assms by (simp add: afterAwait_def block_consoleError setters Let_def)

lemma afterAwait_retry:
  assumes "\<not> generationCancelledRef (app w)" and "attempt \<noteq> MAX_ATTEMPTS"
  shows "afterAwait i attempt p q pr (logs, Inl err) w =
           w\<lparr>tasks := (tasks w)[i := AwaitingTimeout attempt p q pr],
             trace := trace w @ map ConsoleError logs
                        @ [ConsoleError (AttemptFailed attempt (caught_message err)),
                           SetTimeout 2000]\<rparr>"
  using assms by (simp add: afterAwait_def block_consoleError catchBlock_retry Let_def)

lemma afterAwait_final:
  assumes "\<not> generationCancelledRef (app w)"
  shows "afterAwait i MAX_ATTEMPTS p q pr (logs, Inl err) w =
           w\<lparr>app := (app w)\<lparr>error := Some terminal_message, isLoading := False,
                             appState := ErrorState\<rparr>,
             tasks := (tasks w)[i := Returned],
             trace := trace w @ map ConsoleError logs
                        @ [ConsoleError (AttemptFailed MAX_ATTEMPTS (caught_message err)),
                           SetError (Some terminal_message)]\<rparr>"
  using assms by (simp add: afterAwait_def block_consoleError catchBlock_final Let_def)

lemma loopIteration_first_call:
  assumes "\<not> generationCancelledRef (app w)" and "prepareRequest p q pr = Inr request"
    and "attempt = 1"
  shows "loopIteration i attempt p q pr w =
           w\<lparr>tasks := (tasks w)[i := AwaitingRemote attempt p q pr],
             trace := trace w @ [RemoteCall request]\<rparr>"
  using assms by (simp add: loopIteration_def MAX_ATTEMPTS_def setters Let_def)

lemma loopIteration_retry_call:
  assumes "\<not> generationCancelledRef (app w)" and "prepareRequest p q pr = Inr request"
    and "1 < attempt" and "attempt \<le> MAX_ATTEMPTS"
  shows "loopIteration i attempt p q pr w =
           w\<lparr>app := (app w)\<lparr>error := Some (retry_message attempt)\<rparr>,
             tasks := (tasks w)[i := AwaitingRemote attempt p q pr],
             trace := trace w @ [SetError (Some (retry_message attempt)), RemoteCall request]\<rparr>"
  using assms by (simp add: loopIteration_def setters Let_def)

lemma afterRemote_fails:
  assumes "remote_fails settled"
  shows "\<exists>logs err. afterRemote settled = (logs, Inl err)"
  using assms processGeminiResponse_no_image
  by (cases settled) (auto simp: afterRemote_def remote_fails_def catchAndWrap_def)

lemma calls_and_waits_simps [simp]:
  "calls_and_waits [] = []"
  "calls_and_waits (RemoteCall r # tr) = RemoteCall r # calls_and_waits tr"
  "calls_and_waits (SetTimeout n # tr) = SetTimeout n # calls_and_waits tr"
  "calls_and_waits (SetError s # tr) = calls_and_waits tr"
  "calls_and_waits (ConsoleError l # tr) = calls_and_waits tr"
  "calls_and_waits (tr @ tr') = calls_and_waits tr @ calls_and_waits tr'"
  "calls_and_waits (map ConsoleError logs) = []"
  by (simp_all add: calls_and_waits_def)

lemma statuses_shown_append [simp]:
  "statuses_shown (tr @ tr') = statuses_shown tr @ statuses_shown tr'"
  by (induction tr rule: statuses_shown.induct) simp_all

lemma statuses_shown_console [simp]: "statuses_shown (map ConsoleError logs) = []"
  by (induction logs) simp_all

lemma handleGenerate_starts:
  assumes "personImage (app w) = Some p" "productImage (app w) = Some q" "p \<noteq> []" "q \<noteq> []"
    and "prepareRequest p q (prompt (app w)) = Inr request"
  shows "handleGenerate w =
           \<lparr>app = (app w)\<lparr>isLoading := True, generatedImage := None, error := None,
                           appState := Generating, generationCancelledRef := False\<rparr>,
            tasks = tasks w @ [AwaitingRemote 1 p q (prompt (app w))],
            trace = trace w @ [SetError None, RemoteCall request]\<rparr>"
  using assms
  by (simp add: handleGenerate_def loopIteration_first_call setters)

lemma step_settles_retry:
  assumes "tasks w = ts @ [AwaitingRemote attempt p q pr]" "i = length ts"
    and "\<not> generationCancelledRef (app w)" and "attempt \<noteq> MAX_ATTEMPTS"
    and "afterRemote settled = (logs, Inl err)"
  shows "step w (RemoteSettles i settled) =
           \<lparr>app = app w, tasks = ts @ [AwaitingTimeout attempt p q pr],
            trace = trace w @ map ConsoleError logs
                      @ [ConsoleError (AttemptFailed attempt (caught_message err)),
                         SetTimeout 2000]\<rparr>"
  using assms by (simp add: afterAwait_retry)


lemma step_settles_success:
  assumes "tasks w = ts @ [AwaitingRemote attempt p q pr]" "i = length ts"
    and "\<not> generationCancelledRef (app w)"
    and "afterRemote settled = (logs, Inr url)"
  shows "step w (RemoteSettles i settled) =
           \<lparr>app = (app w)\<lparr>generatedImage := Some url, error := None, isLoading := False,
                           appState := Results\<rparr>,
            tasks = ts @ [Returned],
            trace = trace w @ map ConsoleError logs @ [SetError None]\<rparr>"
  using assms by (simp add: afterAwait_success)

lemma step_timer_retry:
  assumes "tasks w = ts @ [AwaitingTimeout attempt p q pr]" "i = length ts"
    and "\<not> generationCancelledRef (app w)" and "0 < attempt" and "attempt < MAX_ATTEMPTS"
    and "prepareRequest p q pr = Inr request" and "n = attempt + 1"
  shows "step w (TimerFires i) =
           \<lparr>app = (app w)\<lparr>error := Some (retry_message n)\<rparr>,
            tasks = ts @ [AwaitingRemote n p q pr],
            trace = trace w @ [SetError (Some (retry_message n)), RemoteCall request]\<rparr>"
  using assms by (simp add: loopIteration_retry_call)

lemma retry_message_2: "retry_message 2 = ''That didn't work, trying again... (Attempt 2/3)''"
  by (simp add: retry_message_def MAX_ATTEMPTS_def show_nat.simps [of 2] show_nat.simps [of 3])

lemma retry_message_3: "retry_message 3 = ''That didn't work, trying again... (Attempt 3/3)''"
  by (simp add: retry_message_def MAX_ATTEMPTS_def show_nat.simps [of 3])

lemma run_snoc: "run w (evs @ [e]) = step (run w evs) e"
  by (simp add: run_def)

lemma two_failures_run:
  assumes images: "personImage (app w) = Some p" "productImage (app w) = Some q" "p \<noteq> []" "q \<noteq> []"
    and request: "prepareRequest p q (prompt (app w)) = Inr request"
    and a1: "afterRemote o1 = (l1, Inl e1)"
    and a2: "afterRemote o2 = (l2, Inl e2)"
    and i: "i = length (tasks w)"
  shows "run (handleGenerate w) [RemoteSettles i o1, TimerFires i, RemoteSettles i o2, TimerFires i]
         = \<lparr>app = (app w)\<lparr>isLoading := True, generatedImage := None,
                          error := Some (retry_message 3), appState := Generating,
                          generationCancelledRef := False\<rparr>,
            tasks = tasks w @ [AwaitingRemote 3 p q (prompt (app w))],
            trace = trace w @ [SetError None, RemoteCall request] @ map ConsoleError l1
              @ [ConsoleError (AttemptFailed 1 (caught_message e1)), SetTimeout 2000,
                 SetError (Some (retry_message 2)), RemoteCall request] @ map ConsoleError l2
              @ [ConsoleError (AttemptFailed 2 (caught_message e2)), SetTimeout 2000,
                 SetError (Some (retry_message 3)), RemoteCall request]\<rparr>"
proof -
  let ?pr = "prompt (app w)"
  define w1 where "w1 = handleGenerate w"
  define w2 where "w2 = step w1 (RemoteSettles i o1)"
  define w3 where "w3 = step w2 (TimerFires i)"
  define w4 where "w4 = step w3 (RemoteSettles i o2)"
  define w5 where "w5 = step w4 (TimerFires i)"
  have w1: "w1 = \<lparr>app = (app w)\<lparr>isLoading := True, generatedImage := None, error := None,
                           appState := Generating, generationCancelledRef := False\<rparr>,
                   tasks = tasks w @ [AwaitingRemote 1 p q ?pr],
                   trace = trace w @ [SetError None, RemoteCall request]\<rparr>"
    unfolding w1_def using images request by (rule handleGenerate_starts)
  have w2: "w2 = \<lparr>app = app w1, tasks = tasks w @ [AwaitingTimeout 1 p q ?pr],
                   trace = trace w1 @ map ConsoleError l1
                      @ [ConsoleError (AttemptFailed 1 (caught_message e1)), SetTimeout 2000]\<rparr>"
    unfolding w2_def
    by (rule step_settles_retry [OF _ i _ _ a1]) (simp_all add: w1 MAX_ATTEMPTS_def)
  have w3: "w3 = \<lparr>app = (app w2)\<lparr>error := Some (retry_message 2)\<rparr>,
                   tasks = tasks w @ [AwaitingRemote 2 p q ?pr],
                   trace = trace w2 @ [SetError (Some (retry_message 2)), RemoteCall request]\<rparr>"
    unfolding w3_def
    by (rule step_timer_retry [where attempt = 1, OF _ i _ _ _ request])
      (simp_all add: w2 w1 MAX_ATTEMPTS_def)
  have w4: "w4 = \<lparr>app = app w3, tasks = tasks w @ [AwaitingTimeout 2 p q ?pr],
                   trace = trace w3 @ map ConsoleError l2
                      @ [ConsoleError (AttemptFailed 2 (caught_message e2)), SetTimeout 2000]\<rparr>"
    unfolding w4_def
    by (rule step_settles_retry [OF _ i _ _ a2]) (simp_all add: w3 w2 w1 MAX_ATTEMPTS_def)
  have w5: "w5 = \<lparr>app = (app w4)\<lparr>error := Some (retry_message 3)\<rparr>,
                   tasks = tasks w @ [AwaitingRemote 3 p q ?pr],
                   trace = trace w4 @ [SetError (Some (retry_message 3)), RemoteCall request]\<rparr>"
    unfolding w5_def
    by (rule step_timer_retry [where attempt = 2, OF _ i _ _ _ request])
      (simp_all add: w4 w3 w2 w1 MAX_ATTEMPTS_def)
  have "run (handleGenerate w) [RemoteSettles i o1, TimerFires i, RemoteSettles i o2, TimerFires i]
        = w5"
    by (simp add: run_def w5_def w4_def w3_def w2_def w1_def)
  then show ?thesis
    by (simp add: w5 w4 w3 w2 w1)
qed


lemma two_failures_then_success_run:
  assumes images: "personImage (app w) = Some p" "productImage (app w) = Some q" "p \<noteq> []" "q \<noteq> []"
    and request: "prepareRequest p q (prompt (app w)) = Inr request"
    and a1: "afterRemote o1 = (l1, Inl e1)"
    and a2: "afterRemote o2 = (l2, Inl e2)"
    and a3: "afterRemote o3 = (l3, Inr url)"
    and i: "i = length (tasks w)"
  shows "run (handleGenerate w)
           ([RemoteSettles i o1, TimerFires i, RemoteSettles i o2, TimerFires i]
              @ [RemoteSettles i o3])
         = \<lparr>app = (app w)\<lparr>isLoading := False, generatedImage := Some url,
                          error := None, appState := Results,
                          generationCancelledRef := False\<rparr>,
            tasks = tasks w @ [Returned],
            trace = trace w @ [SetError None, RemoteCall request] @ map ConsoleError l1
              @ [ConsoleError (AttemptFailed 1 (caught_message e1)), SetTimeout 2000,
                 SetError (Some (retry_message 2)), RemoteCall request] @ map ConsoleError l2
              @ [ConsoleError (AttemptFailed 2 (caught_message e2)), SetTimeout 2000,
                 SetError (Some (retry_message 3)), RemoteCall request] @ map ConsoleError l3
              @ [SetError None]\<rparr>"
  unfolding run_snoc two_failures_run [OF images request a1 a2 i]
  using step_settles_success [where ts = "tasks w" and p = p and q = q, OF _ i _ a3]
  by simp


lemma loaded_world_fields:
  "personImage (app loaded_world) = Some example_person"
  "productImage (app loaded_world) = Some example_product"
  "prompt (app loaded_world) = default_prompt"
  "tasks loaded_world = []" "trace loaded_world = []"
  "appState (app loaded_world) = Idle"
  by (simp_all add: loaded_world_eq initial_app_def)

lemma example_nonempty: "example_person \<noteq> []" "example_product \<noteq> []" "example_svg \<noteq> []"
  by (simp_all add: examples)

lemma example_failures:
  "remote_fails (Inl (Error ''quota exceeded''))"
  "remote_fails (Inr text_only_response)"
  "remote_fails (Inl (NonError ''{}''))"
  by (simp_all add: remote_fails_def text_only_no_inline)


lemma afterRemote_succeeds:
  assumes "remote_succeeds_with settled url"
  shows "\<exists>logs. afterRemote settled = (logs, Inr url)"
  using assms
  by (cases settled; cases "processGeminiResponse (projr settled)")
    (auto simp: afterRemote_def remote_succeeds_with_def)

text \<open>
  C6. If the remote call fails on the first and the second attempt and succeeds on the third,
  the loop reaches the Results state with the loop counter at 3, having shown exactly two
  retrying messages, each with its attempt number.
\<close>

theorem third_attempt_succeeds:
  assumes "personImage (app w) = Some p" "productImage (app w) = Some q" "p \<noteq> []" "q \<noteq> []"
    and "prepareRequest p q (prompt (app w)) = Inr request"
    and "remote_fails o1" "remote_fails o2" "remote_succeeds_with o3 url"
  shows "\<exists>new.
           (let i = length (tasks w);
                evs = [RemoteSettles i o1, TimerFires i, RemoteSettles i o2, TimerFires i];
                w' = run (handleGenerate w) (evs @ [RemoteSettles i o3])
            in tasks (run (handleGenerate w) evs)
                 = tasks w @ [AwaitingRemote 3 p q (prompt (app w))]
               \<and> appState (app w') = Results \<and> \<not> isLoading (app w')
               \<and> generatedImage (app w') = Some url \<and> error (app w') = None
               \<and> tasks w' = tasks w @ [Returned]
               \<and> trace w' = trace w @ new
               \<and> statuses_shown new =
                     [''That didn't work, trying again... (Attempt 2/3)'',
                      ''That didn't work, trying again... (Attempt 3/3)'']
               \<and> calls_and_waits new =
                     [RemoteCall request, SetTimeout 2000, RemoteCall request, SetTimeout 2000,
                      RemoteCall request])"
proof -
  from afterRemote_fails [OF assms(6)] obtain l1 e1 where s1: "afterRemote o1 = (l1, Inl e1)"
    by auto
  from afterRemote_fails [OF assms(7)] obtain l2 e2 where s2: "afterRemote o2 = (l2, Inl e2)"
    by auto
  from afterRemote_succeeds [OF assms(8)] obtain l3 where s3: "afterRemote o3 = (l3, Inr url)"
    by auto
  note before = two_failures_run [OF assms(1-5) s1 s2 refl]
  note final = two_failures_then_success_run [OF assms(1-5) s1 s2 s3 refl]
  show ?thesis
    unfolding Let_def final before
    by (rule exI [of _ "[SetError None, RemoteCall request] @ map ConsoleError l1
              @ [ConsoleError (AttemptFailed 1 (caught_message e1)), SetTimeout 2000,
                 SetError (Some (retry_message 2)), RemoteCall request] @ map ConsoleError l2
              @ [ConsoleError (AttemptFailed 2 (caught_message e2)), SetTimeout 2000,
                 SetError (Some (retry_message 3)), RemoteCall request] @ map ConsoleError l3
              @ [SetError None]"])
      (simp add: retry_message_2 retry_message_3)
qed

lemma image_response_succeeds:
  "remote_succeeds_with (Inr image_response) ''data:image/png;base64,CCCC''"
  by (simp add: remote_succeeds_with_def image_response_url)

theorem third_attempt_succeeds_witness:
  "personImage (app loaded_world) = Some example_person
   \<and> productImage (app loaded_world) = Some example_product
   \<and> example_person \<noteq> [] \<and> example_product \<noteq> []
   \<and> prepareRequest example_person example_product (prompt (app loaded_world)) = Inr example_request
   \<and> remote_fails (Inl (Error ''quota exceeded'')) \<and> remote_fails (Inr text_only_response)
   \<and> remote_succeeds_with (Inr image_response) ''data:image/png;base64,CCCC''
   \<and> (\<exists>new.
         (let evs = [RemoteSettles 0 (Inl (Error ''quota exceeded'')), TimerFires 0,
                     RemoteSettles 0 (Inr text_only_response), TimerFires 0];
              w' = run (handleGenerate loaded_world) (evs @ [RemoteSettles 0 (Inr image_response)])
          in tasks (run (handleGenerate loaded_world) evs)
               = [AwaitingRemote 3 example_person example_product default_prompt]
             \<and> appState (app w') = Results \<and> \<not> isLoading (app w')
             \<and> generatedImage (app w') = Some ''data:image/png;base64,CCCC''
             \<and> error (app w') = None
             \<and> tasks w' = [Returned]
             \<and> trace w' = new
             \<and> statuses_shown new =
                   [''That didn't work, trying again... (Attempt 2/3)'',
                    ''That didn't work, trying again... (Attempt 3/3)'']
             \<and> calls_and_waits new =
                   [RemoteCall example_request, SetTimeout 2000, RemoteCall example_request,
                    SetTimeout 2000, RemoteCall example_request]))"
proof -
  have request: "prepareRequest example_person example_product (prompt (app loaded_world))
                   = Inr example_request"
    by (simp add: loaded_world_fields prepare_example)
  from third_attempt_succeeds [OF loaded_world_fields(1,2) example_nonempty(1,2) request
      example_failures(1,2) image_response_succeeds]
  show ?thesis
    using request example_failures(1,2) example_nonempty(1,2) image_response_succeeds
    by (simp add: loaded_world_fields)
qed

lemma parseDataUrl_throws: "parseDataUrl s = Inl e \<Longrightarrow> e = Error invalid_format_message"
  by (auto simp: parseDataUrl_def split: option.splits)

lemma prepareRequest_no_match:
  assumes "\<not> matches_data_url_pattern p \<or> \<not> matches_data_url_pattern q"
  shows "prepareRequest p q pr = Inl (Error invalid_format_message)"
proof (cases "parseDataUrl p")
  case (Inl e)
  with parseDataUrl_throws [OF Inl] show ?thesis
    by (simp add: prepareRequest_def)
next
  case (Inr pp)
  with assms parseDataUrl_no_match [of p] have "\<not> matches_data_url_pattern q"
    by auto
  from parseDataUrl_no_match [OF this] Inr show ?thesis
    by (simp add: prepareRequest_def)
qed

lemma MAX_ATTEMPTS_gt_1: "1 < MAX_ATTEMPTS" "Suc 0 < MAX_ATTEMPTS"
  by (simp_all add: MAX_ATTEMPTS_def)

lemma loopIteration_no_request_retry:
  assumes "\<not> generationCancelledRef (app w)" and "prepareRequest p q pr = Inl e"
    and "attempt < MAX_ATTEMPTS"
  shows "loopIteration i attempt p q pr w =
           (if 1 < attempt then w\<lparr>app := (app w)\<lparr>error := Some (retry_message attempt)\<rparr>\<rparr> else w)
           \<lparr>tasks := (tasks w)[i := AwaitingTimeout attempt p q pr],
            trace := trace w @ (if 1 < attempt then [SetError (Some (retry_message attempt))] else [])
              @ [ConsoleError (Unrecoverable e),
                 ConsoleError (AttemptFailed attempt
                   (generation_failed_message (case e of Error m \<Rightarrow> m | NonError j \<Rightarrow> j))),
                 SetTimeout 2000]\<rparr>"
  using assms
  by (simp add: loopIteration_def catchAndWrap_def afterAwait_retry setters caught_message_def)

lemma loopIteration_no_request_final:
  assumes "\<not> generationCancelledRef (app w)" and "prepareRequest p q pr = Inl e"
  shows "loopIteration i MAX_ATTEMPTS p q pr w =
           w\<lparr>app := (app w)\<lparr>error := Some terminal_message, isLoading := False,
                             appState := ErrorState\<rparr>,
             tasks := (tasks w)[i := Returned],
             trace := trace w @ [SetError (Some (retry_message MAX_ATTEMPTS)),
                 ConsoleError (Unrecoverable e),
                 ConsoleError (AttemptFailed MAX_ATTEMPTS
                   (generation_failed_message (case e of Error m \<Rightarrow> m | NonError j \<Rightarrow> j))),
                 SetError (Some terminal_message)]\<rparr>"
  using assms MAX_ATTEMPTS_gt_1
  by (simp add: loopIteration_def catchAndWrap_def afterAwait_final setters caught_message_def)

lemma step_timer_no_request_retry:
  assumes "tasks w = ts @ [AwaitingTimeout attempt p q pr]" "i = length ts"
    and "\<not> generationCancelledRef (app w)" and "prepareRequest p q pr = Inl e"
    and "n = attempt + 1" and "0 < attempt" and "n < MAX_ATTEMPTS"
  shows "step w (TimerFires i) =
           \<lparr>app = (app w)\<lparr>error := Some (retry_message n)\<rparr>,
            tasks = ts @ [AwaitingTimeout n p q pr],
            trace = trace w @ [SetError (Some (retry_message n)), ConsoleError (Unrecoverable e),
                 ConsoleError (AttemptFailed n
                   (generation_failed_message (case e of Error m \<Rightarrow> m | NonError j \<Rightarrow> j))),
                 SetTimeout 2000]\<rparr>"
  using assms by (simp add: loopIteration_no_request_retry)

lemma step_timer_no_request_final:
  assumes "tasks w = ts @ [AwaitingTimeout attempt p q pr]" "i = length ts"
    and "\<not> generationCancelledRef (app w)" and "prepareRequest p q pr = Inl e"
    and "MAX_ATTEMPTS = attempt + 1"
  shows "step w (TimerFires i) =
           \<lparr>app = (app w)\<lparr>error := Some terminal_message, isLoading := False,
                           appState := ErrorState\<rparr>,
            tasks = ts @ [Returned],
            trace = trace w @ [SetError (Some (retry_message MAX_ATTEMPTS)),
                 ConsoleError (Unrecoverable e),
                 ConsoleError (AttemptFailed MAX_ATTEMPTS
                   (generation_failed_message (case e of Error m \<Rightarrow> m | NonError j \<Rightarrow> j))),
                 SetError (Some terminal_message)]\<rparr>"
  using assms loopIteration_no_request_final [of w p q pr e "length ts"]
  by (simp del: One_nat_def add: assms(5) [symmetric])

lemma handleGenerate_no_request:
  assumes "personImage (app w) = Some p" "productImage (app w) = Some q" "p \<noteq> []" "q \<noteq> []"
    and "prepareRequest p q (prompt (app w)) = Inl e"
  shows "handleGenerate w =
           \<lparr>app = (app w)\<lparr>isLoading := True, generatedImage := None, error := None,
                           appState := Generating, generationCancelledRef := False\<rparr>,
            tasks = tasks w @ [AwaitingTimeout 1 p q (prompt (app w))],
            trace = trace w @ [SetError None, ConsoleError (Unrecoverable e),
                 ConsoleError (AttemptFailed 1
                   (generation_failed_message (case e of Error m \<Rightarrow> m | NonError j \<Rightarrow> j))),
                 SetTimeout 2000]\<rparr>"
  using assms
  by (simp add: handleGenerate_def loopIteration_no_request_retry setters MAX_ATTEMPTS_def)

lemma no_request_run:
  assumes images: "personImage (app w) = Some p" "productImage (app w) = Some q" "p \<noteq> []" "q \<noteq> []"
    and request: "prepareRequest p q (prompt (app w)) = Inl e"
    and i: "i = length (tasks w)"
    and d: "d = generation_failed_message (case e of Error m \<Rightarrow> m | NonError j \<Rightarrow> j)"
  shows "run (handleGenerate w) [TimerFires i, TimerFires i]
         = \<lparr>app = (app w)\<lparr>isLoading := False, generatedImage := None,
                          error := Some terminal_message, appState := ErrorState,
                          generationCancelledRef := False\<rparr>,
            tasks = tasks w @ [Returned],
            trace = trace w @ [SetError None, ConsoleError (Unrecoverable e),
                 ConsoleError (AttemptFailed 1 d), SetTimeout 2000,
                 SetError (Some (retry_message 2)), ConsoleError (Unrecoverable e),
                 ConsoleError (AttemptFailed 2 d), SetTimeout 2000,
                 SetError (Some (retry_message 3)), ConsoleError (Unrecoverable e),
                 ConsoleError (AttemptFailed 3 d), SetError (Some terminal_message)]\<rparr>"
proof -
  let ?pr = "prompt (app w)"
  define w1 where "w1 = handleGenerate w"
  define w2 where "w2 = step w1 (TimerFires i)"
  define w3 where "w3 = step w2 (TimerFires i)"
  have w1: "w1 = \<lparr>app = (app w)\<lparr>isLoading := True, generatedImage := None, error := None,
                           appState := Generating, generationCancelledRef := False\<rparr>,
            tasks = tasks w @ [AwaitingTimeout 1 p q ?pr],
            trace = trace w @ [SetError None, ConsoleError (Unrecoverable e),
                 ConsoleError (AttemptFailed 1 d), SetTimeout 2000]\<rparr>"
    unfolding w1_def d using images request by (rule handleGenerate_no_request)
  have w2: "w2 = \<lparr>app = (app w1)\<lparr>error := Some (retry_message 2)\<rparr>,
             tasks = tasks w @ [AwaitingTimeout 2 p q ?pr],
             trace = trace w1 @ [SetError (Some (retry_message 2)),
                 ConsoleError (Unrecoverable e), ConsoleError (AttemptFailed 2 d),
                 SetTimeout 2000]\<rparr>"
    unfolding w2_def d
    by (rule step_timer_no_request_retry [where attempt = 1, OF _ i _ request])
      (simp_all add: w1 MAX_ATTEMPTS_def)
  have w3: "w3 = \<lparr>app = (app w2)\<lparr>error := Some terminal_message, isLoading := False,
                             appState := ErrorState\<rparr>,
             tasks = tasks w @ [Returned],
             trace = trace w2 @ [SetError (Some (retry_message 3)),
                 ConsoleError (Unrecoverable e), ConsoleError (AttemptFailed 3 d),
                 SetError (Some terminal_message)]\<rparr>"
    unfolding w3_def d
    using step_timer_no_request_final [where w = w2 and attempt = 2, OF _ i _ request]
    by (simp add: w2 w1 MAX_ATTEMPTS_def)
  have "run (handleGenerate w) [TimerFires i, TimerFires i] = w3"
    by (simp add: run_def w3_def w2_def w1_def)
  then show ?thesis
    by (simp add: w3 w2 w1)
qed

lemma generateProductScene_no_request:
  assumes "prepareRequest p q pr = Inl e"
  shows "called (generateProductScene remote p q pr) = []"
    and "outcome (generateProductScene remote p q pr) =
           Inl (Error (generation_failed_message (case e of Error m \<Rightarrow> m | NonError j \<Rightarrow> j)))"
  using assms by (simp_all add: generateProductScene_def catchAndWrap_def)

text \<open>
  C1, as the code has it. With a data URL that does not match the pattern, generateProductScene
  fails without a remote call, its message carrying the detail of parseDataUrl. The retry
  loop treats this failure like any other: nothing is shown after the first attempt, a retry
  is scheduled, and after three attempts and two waits the session ends in the Error state
  with the generic terminal message; the detail goes to the console only.
\<close>

theorem malformed_image_is_retried:
  assumes "personImage (app w) = Some p" "productImage (app w) = Some q" "p \<noteq> []" "q \<noteq> []"
    and "\<not> matches_data_url_pattern p \<or> \<not> matches_data_url_pattern q"
  shows "\<exists>new.
           (let i = length (tasks w);
                detail = ''The AI model failed to generate an image. Details: ''
                  @ ''Invalid image data URL format. Expected 'data:image/...;base64,...''
                  @ [CHR 0x27];
                w1 = handleGenerate w;
                w' = run w1 [TimerFires i, TimerFires i]
            in called (generateProductScene remote p q (prompt (app w))) = []
               \<and> outcome (generateProductScene remote p q (prompt (app w))) = Inl (Error detail)
               \<and> appState (app w1) = Generating \<and> error (app w1) = None
               \<and> tasks w1 = tasks w @ [AwaitingTimeout 1 p q (prompt (app w))]
               \<and> appState (app w') = ErrorState
               \<and> error (app w') = Some (''Sorry, the AI couldn't create an image. ''
                                         @ ''Please try different images or a new prompt.'')
               \<and> tasks w' = tasks w @ [Returned]
               \<and> trace w' = trace w @ new
               \<and> calls_and_waits new = [SetTimeout 2000, SetTimeout 2000]
               \<and> statuses_shown new =
                     [''That didn't work, trying again... (Attempt 2/3)'',
                      ''That didn't work, trying again... (Attempt 3/3)'',
                      ''Sorry, the AI couldn't create an image. ''
                        @ ''Please try different images or a new prompt.'']
               \<and> ConsoleError (AttemptFailed 1 detail) \<in> set new)"
proof -
  let ?e = "Error invalid_format_message"
  let ?d = "generation_failed_message invalid_format_message"
  have request: "prepareRequest p q (prompt (app w)) = Inl ?e"
    using assms(5) by (rule prepareRequest_no_match)
  have d: "?d = generation_failed_message (case ?e of Error m \<Rightarrow> m | NonError j \<Rightarrow> j)"
    by simp
  note first = handleGenerate_no_request [OF assms(1-4) request]
  note final = no_request_run [OF assms(1-4) request refl d, unfolded first]
  note service = generateProductScene_no_request [OF request, of remote]
  show ?thesis
    unfolding Let_def first final service
    by (rule exI [of _ "[SetError None, ConsoleError (Unrecoverable ?e),
                 ConsoleError (AttemptFailed 1 ?d), SetTimeout 2000,
                 SetError (Some (retry_message 2)), ConsoleError (Unrecoverable ?e),
                 ConsoleError (AttemptFailed 2 ?d), SetTimeout 2000,
                 SetError (Some (retry_message 3)), ConsoleError (Unrecoverable ?e),
                 ConsoleError (AttemptFailed 3 ?d), SetError (Some terminal_message)]"])
      (simp add: retry_message_2 retry_message_3 terminal_message_def
        generation_failed_message_def invalid_format_message_def)
qed

lemma svg_world_fields:
  "personImage (app svg_world) = Some example_svg"
  "productImage (app svg_world) = Some example_product"
  "prompt (app svg_world) = default_prompt"
  "tasks svg_world = []" "trace svg_world = []"
  "appState (app svg_world) = Idle"
  by (simp_all add: svg_world_def run_def initial_world_def initial_app_def setters)

lemma svg_no_match: "\<not> matches_data_url_pattern example_svg"
proof -
  have "match_data_url example_svg = None"
    by (simp add: example_svg_def match_data_url_def is_word_char_def)
  then show ?thesis
    by (rule iffD1 [OF match_data_url_None_iff])
qed

theorem malformed_image_is_retried_witness:
  "personImage (app svg_world) = Some example_svg
   \<and> productImage (app svg_world) = Some example_product
   \<and> example_svg \<noteq> [] \<and> example_product \<noteq> []
   \<and> \<not> matches_data_url_pattern example_svg
   \<and> (\<exists>new.
         (let detail = ''The AI model failed to generate an image. Details: ''
                @ ''Invalid image data URL format. Expected 'data:image/...;base64,...''
                @ [CHR 0x27];
              w1 = handleGenerate svg_world;
              w' = run w1 [TimerFires 0, TimerFires 0]
          in called (generateProductScene (\<lambda>request. Inr image_response)
                       example_svg example_product default_prompt) = []
             \<and> outcome (generateProductScene (\<lambda>request. Inr image_response)
                       example_svg example_product default_prompt) = Inl (Error detail)
             \<and> appState (app w1) = Generating \<and> error (app w1) = None
             \<and> tasks w1 = [AwaitingTimeout 1 example_svg example_product default_prompt]
             \<and> appState (app w') = ErrorState
             \<and> error (app w') = Some (''Sorry, the AI couldn't create an image. ''
                                       @ ''Please try different images or a new prompt.'')
             \<and> tasks w' = [Returned]
             \<and> trace w' = new
             \<and> calls_and_waits new = [SetTimeout 2000, SetTimeout 2000]
             \<and> statuses_shown new =
                   [''That didn't work, trying again... (Attempt 2/3)'',
                    ''That didn't work, trying again... (Attempt 3/3)'',
                    ''Sorry, the AI couldn't create an image. ''
                      @ ''Please try different images or a new prompt.'']
             \<and> ConsoleError (AttemptFailed 1 detail) \<in> set new))"
proof -
  have no: "\<not> matches_data_url_pattern example_svg \<or> \<not> matches_data_url_pattern example_product"
    using svg_no_match by simp
  from malformed_image_is_retried [OF svg_world_fields(1,2) example_nonempty(3,2) no,
      of "\<lambda>request. Inr image_response"]
  show ?thesis
    using svg_no_match example_nonempty(3,2)
    by (simp add: svg_world_fields)
qed

text \<open>
  The statement of the specification fails for an SVG file: after the click nothing is shown and a retry is
  pending; two timers later the session is in the Error state with the generic message.
\<close>

theorem malformed_image_not_surfaced:
  "error (app (step svg_world ClickMainButton)) = None
   \<and> appState (app (step svg_world ClickMainButton)) = Generating
   \<and> tasks (step svg_world ClickMainButton)
       = [AwaitingTimeout 1 example_svg example_product default_prompt]
   \<and> appState (app (run svg_world [ClickMainButton, TimerFires 0, TimerFires 0])) = ErrorState
   \<and> error (app (run svg_world [ClickMainButton, TimerFires 0, TimerFires 0]))
       = Some (''Sorry, the AI couldn't create an image. ''
               @ ''Please try different images or a new prompt.'')
   \<and> statuses_shown (trace (run svg_world [ClickMainButton, TimerFires 0, TimerFires 0]))
       = [''That didn't work, trying again... (Attempt 2/3)'',
          ''That didn't work, trying again... (Attempt 3/3)'',
          ''Sorry, the AI couldn't create an image. ''
            @ ''Please try different images or a new prompt.'']"
proof -
  let ?e = "Error invalid_format_message"
  have request: "prepareRequest example_svg example_product (prompt (app svg_world)) = Inl ?e"
    using svg_no_match by (intro prepareRequest_no_match) simp
  have click: "step svg_world ClickMainButton = handleGenerate svg_world"
    by (simp add: svg_world_fields truthy_def example_nonempty)
  have run: "run svg_world [ClickMainButton, TimerFires 0, TimerFires 0]
               = run (handleGenerate svg_world) [TimerFires 0, TimerFires 0]"
    using click by (simp add: run_def)
  note first = handleGenerate_no_request [OF svg_world_fields(1,2) example_nonempty(3,2) request]
  have i: "0 = length (tasks svg_world)"
    by (simp add: svg_world_fields)
  note final = no_request_run [OF svg_world_fields(1,2) example_nonempty(3,2) request i refl]
  show ?thesis
    unfolding run click final
    by (simp add: first svg_world_fields retry_message_2 retry_message_3
        terminal_message_def)
qed

subsection \<open>Cancel and reset\<close>

lemma handleCancel_eq:
  "handleCancel w =
     w\<lparr>app := (app w)\<lparr>generationCancelledRef := True, isLoading := False, appState := Idle,
                      error := None, generatedImage := None\<rparr>,
       trace := trace w @ [SetError None]\<rparr>"
  by (simp add: handleCancel_def setters)

lemma handleReset_eq:
  "handleReset w =
     w\<lparr>app := initial_app\<lparr>generationCancelledRef := True\<rparr>,
       trace := trace w @ [SetError None]\<rparr>"
  by (simp add: handleReset_def setters initial_app_def)

lemma cancel_goes_idle:
  assumes "appState (app w) = Generating"
  shows "app (step w ClickCancel) =
           (app w)\<lparr>generationCancelledRef := True, isLoading := False, appState := Idle,
                   error := None, generatedImage := None\<rparr>"
  using assms by (simp add: handleCancel_eq)

lemma cancelled_settle_discarded:
  assumes "generationCancelledRef (app w)"
  shows "app (step w (RemoteSettles i settled)) = app w"
proof (cases "afterRemote settled")
  case (Pair logs r)
  with assms show ?thesis
    by (simp add: afterAwait_cancelled split: task.splits)
qed

lemma cancelled_timer_discarded:
  assumes "generationCancelledRef (app w)"
  shows "app (step w (TimerFires i)) = app w"
  using assms by (simp add: loopIteration_def setters split: task.splits)

lemma cancelled_flag_kept:
  assumes "generationCancelledRef (app w)" and "e \<noteq> ClickMainButton"
  shows "generationCancelledRef (app (step w e))"
proof (cases e)
  case (FileLoaded k v)
  with assms show ?thesis by (cases k) (simp_all add: setters)
next
  case (ClearImage k)
  with assms show ?thesis by (cases k) (simp_all add: setters)
next
  case (SelectPromptOption option)
  with assms show ?thesis
    by (simp add: handlePromptOptionChange_def setters Let_def split: option.splits)
next
  case (EditPrompt p)
  with assms show ?thesis by (simp add: setters)
next
  case ClickMainButton
  with assms show ?thesis by simp
next
  case ClickCancel
  with assms show ?thesis by (simp add: handleCancel_eq)
next
  case ClickStartOver
  with assms show ?thesis by (simp add: handleReset_eq)
next
  case (RemoteSettles i settled)
  with assms cancelled_settle_discarded [of w i settled] show ?thesis by simp
next
  case (TimerFires i)
  with assms cancelled_timer_discarded [of w i] show ?thesis by simp
qed

lemma cancelled_flag_kept_run:
  assumes "generationCancelledRef (app w)" and "ClickMainButton \<notin> set evs"
  shows "generationCancelledRef (app (run w evs))"
  using assms
proof (induction evs arbitrary: w)
  case Nil
  then show ?case by (simp add: run_def)
next
  case (Cons e evs)
  from Cons.prems have "generationCancelledRef (app (step w e))"
    by (intro cancelled_flag_kept) auto
  from Cons.IH [OF this] Cons.prems(2) show ?case
    by (simp add: run_def)
qed

text \<open>
  What holds of cancellation: the cancel action puts the component into the Idle state at
  once, and as long as no new generation is started, a remote call that settles afterwards
  changes nothing in the component's state.
\<close>

lemma cancelled_result_discarded:
  assumes "appState (app w) = Generating" and "ClickMainButton \<notin> set evs"
  shows "appState (app (step w ClickCancel)) = Idle"
    and "app (step (run (step w ClickCancel) evs) (RemoteSettles i settled))
           = app (run (step w ClickCancel) evs)"
proof -
  from assms(1) show "appState (app (step w ClickCancel)) = Idle"
    by (simp add: handleCancel_eq)
  from assms(1) have "generationCancelledRef (app (step w ClickCancel))"
    by (simp add: handleCancel_eq)
  from cancelled_flag_kept_run [OF this assms(2)]
  show "app (step (run (step w ClickCancel) evs) (RemoteSettles i settled))
           = app (run (step w ClickCancel) evs)"
    by (rule cancelled_settle_discarded)
qed


lemma loaded_world_click:
  "step loaded_world ClickMainButton =
     \<lparr>app = (app loaded_world)\<lparr>isLoading := True, generatedImage := None, error := None,
                           appState := Generating, generationCancelledRef := False\<rparr>,
      tasks = [AwaitingRemote 1 example_person example_product default_prompt],
      trace = [SetError None, RemoteCall example_request]\<rparr>"
proof -
  have request: "prepareRequest example_person example_product (prompt (app loaded_world))
                   = Inr example_request"
    by (simp add: loaded_world_fields prepare_example)
  have "step loaded_world ClickMainButton = handleGenerate loaded_world"
    by (simp add: loaded_world_fields truthy_def example_nonempty)
  with handleGenerate_starts [OF loaded_world_fields(1,2) example_nonempty(1,2) request]
  show ?thesis
    by (simp add: loaded_world_fields)
qed

lemma image_response_settles:
  "afterRemote (Inr image_response) = ([], Inr ''data:image/png;base64,CCCC'')"
  by (simp add: afterRemote_def image_response_url)

lemma results_world_eq:
  "results_world =
     \<lparr>app = (app loaded_world)\<lparr>isLoading := False,
              generatedImage := Some ''data:image/png;base64,CCCC'', error := None,
              appState := Results, generationCancelledRef := False\<rparr>,
      tasks = [Returned],
      trace = [SetError None, RemoteCall example_request, SetError None]\<rparr>"
proof -
  have "results_world = step (step loaded_world ClickMainButton) (RemoteSettles 0 (Inr image_response))"
    by (simp add: results_world_def run_def)
  also have "\<dots> = afterAwait 0 1 example_person example_product default_prompt
                     ([], Inr ''data:image/png;base64,CCCC'') (step loaded_world ClickMainButton)"
    unfolding loaded_world_click by (simp add: image_response_settles)
  finally show ?thesis
    unfolding loaded_world_click
    by (simp add: afterAwait_success loaded_world_eq initial_app_def)
qed

text \<open>
  C4, as the code has it. Cancel never touches the uploaded images or the prompt selection;
  in a state that is already Idle with nothing loading, no error and no result it changes
  nothing but the cancellation flag, and where its button is not rendered (outside
  Generating) clicking does nothing. Reset always produces the initial state with the flag
  set: it clears the images, the result and the error and restores the default prompt.
\<close>

theorem cancel_and_reset_effect:
  "(appState (app w) = Idle \<and> \<not> isLoading (app w) \<and> error (app w) = None
      \<and> generatedImage (app w) = None
      \<longrightarrow> app (handleCancel w) = (app w)\<lparr>generationCancelledRef := True\<rparr>)
   \<and> personImage (app (handleCancel w)) = personImage (app w)
   \<and> productImage (app (handleCancel w)) = productImage (app w)
   \<and> promptOption (app (handleCancel w)) = promptOption (app w)
   \<and> prompt (app (handleCancel w)) = prompt (app w)
   \<and> tasks (handleCancel w) = tasks w
   \<and> (appState (app w) \<noteq> Generating \<longrightarrow> step w ClickCancel = w)
   \<and> app (handleReset w) = initial_app\<lparr>generationCancelledRef := True\<rparr>
   \<and> tasks (handleReset w) = tasks w"
  by (simp add: handleCancel_eq handleReset_eq)

theorem cancel_and_reset_effect_witness:
  "appState (app loaded_world) = Idle \<and> \<not> isLoading (app loaded_world)
   \<and> error (app loaded_world) = None \<and> generatedImage (app loaded_world) = None
   \<and> appState (app loaded_world) \<noteq> Generating
   \<and> app (handleCancel loaded_world) = (app loaded_world)\<lparr>generationCancelledRef := True\<rparr>
   \<and> personImage (app (handleCancel loaded_world)) = Some example_person
   \<and> productImage (app (handleCancel loaded_world)) = Some example_product
   \<and> step loaded_world ClickCancel = loaded_world
   \<and> app (handleReset loaded_world) = initial_app\<lparr>generationCancelledRef := True\<rparr>
   \<and> personImage (app (handleReset loaded_world)) = None"
proof -
  have idle: "appState (app loaded_world) = Idle" "\<not> isLoading (app loaded_world)"
    "error (app loaded_world) = None" "generatedImage (app loaded_world) = None"
    by (simp_all add: loaded_world_eq initial_app_def)
  from cancel_and_reset_effect [of loaded_world] idle show ?thesis
    by (simp add: loaded_world_fields initial_app_def)
qed

text \<open>
  The statement of the specification fails in the Results state, where no session is active and the
  Start Over button runs reset: the uploaded images and the result are cleared. Cancel,
  invoked there, clears the result as well.
\<close>

theorem reset_clears_results_state:
  "appState (app results_world) = Results \<and> tasks results_world = [Returned]
   \<and> personImage (app results_world) = Some example_person
   \<and> productImage (app results_world) = Some example_product
   \<and> generatedImage (app results_world) = Some ''data:image/png;base64,CCCC''
   \<and> step results_world ClickStartOver = handleReset results_world
   \<and> personImage (app (handleReset results_world)) = None
   \<and> productImage (app (handleReset results_world)) = None
   \<and> generatedImage (app (handleReset results_world)) = None
   \<and> appState (app (handleReset results_world)) = Idle
   \<and> generatedImage (app (handleCancel results_world)) = None
   \<and> appState (app (handleCancel results_world)) = Idle"
  by (simp add: results_world_eq loaded_world_fields handleReset_eq handleCancel_eq
      initial_app_def start_over_rendered_def truthy_def)

text \<open>
  C3 on the code. Generate, cancel while the first call is in flight, generate again, and
  let the first call settle: the second click has cleared the cancellation flag that the
  first invocation reads, so the result of the cancelled session is committed. With a
  successful first call the component shows its image in the Results state while the second
  session is still waiting; with a failed first call the cancelled session schedules its
  retry.
\<close>

theorem stale_result_after_restart:
  "appState (app (run loaded_world [ClickMainButton, ClickCancel])) = Idle
   \<and> tasks (run loaded_world [ClickMainButton, ClickCancel])
       = [AwaitingRemote 1 example_person example_product default_prompt]
   \<and> appState (app (run loaded_world [ClickMainButton, ClickCancel, ClickMainButton]))
       = Generating
   \<and> appState (app (run loaded_world [ClickMainButton, ClickCancel, ClickMainButton,
                                        RemoteSettles 0 (Inr image_response)])) = Results
   \<and> generatedImage (app (run loaded_world [ClickMainButton, ClickCancel, ClickMainButton,
                                        RemoteSettles 0 (Inr image_response)]))
       = Some ''data:image/png;base64,CCCC''
   \<and> \<not> isLoading (app (run loaded_world [ClickMainButton, ClickCancel, ClickMainButton,
                                        RemoteSettles 0 (Inr image_response)]))
   \<and> tasks (run loaded_world [ClickMainButton, ClickCancel, ClickMainButton,
                               RemoteSettles 0 (Inr image_response)])
       = [Returned, AwaitingRemote 1 example_person example_product default_prompt]
   \<and> tasks (run loaded_world [ClickMainButton, ClickCancel, ClickMainButton,
                               RemoteSettles 0 (Inl (Error ''quota exceeded''))])
       = [AwaitingTimeout 1 example_person example_product default_prompt,
          AwaitingRemote 1 example_person example_product default_prompt]"
proof -
  define w1 where "w1 = step loaded_world ClickMainButton"
  define w2 where "w2 = step w1 ClickCancel"
  define w3 where "w3 = step w2 ClickMainButton"
  have w1: "w1 = \<lparr>app = (app loaded_world)\<lparr>isLoading := True, generatedImage := None,
                           error := None, appState := Generating,
                           generationCancelledRef := False\<rparr>,
                  tasks = [AwaitingRemote 1 example_person example_product default_prompt],
                  trace = [SetError None, RemoteCall example_request]\<rparr>"
    unfolding w1_def by (rule loaded_world_click)
  have w2: "w2 = \<lparr>app = (app loaded_world)\<lparr>isLoading := False, generatedImage := None,
                           error := None, appState := Idle,
                           generationCancelledRef := True\<rparr>,
                  tasks = [AwaitingRemote 1 example_person example_product default_prompt],
                  trace = [SetError None, RemoteCall example_request, SetError None]\<rparr>"
    unfolding w2_def by (simp add: w1 handleCancel_eq)
  have request: "prepareRequest example_person example_product (prompt (app w2))
                   = Inr example_request"
    by (simp add: w2 loaded_world_fields prepare_example)
  have "w3 = handleGenerate w2"
    unfolding w3_def by (simp add: w2 loaded_world_fields truthy_def example_nonempty)
  with handleGenerate_starts [OF _ _ example_nonempty(1,2) request]
  have w3: "w3 = \<lparr>app = (app loaded_world)\<lparr>isLoading := True, generatedImage := None,
                           error := None, appState := Generating,
                           generationCancelledRef := False\<rparr>,
                  tasks = [AwaitingRemote 1 example_person example_product default_prompt,
                           AwaitingRemote 1 example_person example_product default_prompt],
                  trace = [SetError None, RemoteCall example_request, SetError None,
                           SetError None, RemoteCall example_request]\<rparr>"
    by (simp add: w2 loaded_world_fields)
  have ok: "step w3 (RemoteSettles 0 (Inr image_response)) =
              afterAwait 0 1 example_person example_product default_prompt
                ([], Inr ''data:image/png;base64,CCCC'') w3"
    by (simp add: w3 image_response_settles)
  have failed: "step w3 (RemoteSettles 0 (Inl (Error ''quota exceeded''))) =
              afterAwait 0 1 example_person example_product default_prompt
                ([Unrecoverable (Error ''quota exceeded'')],
                 Inl (Error (generation_failed_message ''quota exceeded''))) w3"
    by (simp add: w3 afterRemote_def catchAndWrap_def)
  have runs:
    "run loaded_world [ClickMainButton, ClickCancel] = w2"
    "run loaded_world [ClickMainButton, ClickCancel, ClickMainButton] = w3"
    "run loaded_world [ClickMainButton, ClickCancel, ClickMainButton,
        RemoteSettles 0 (Inr image_response)] = step w3 (RemoteSettles 0 (Inr image_response))"
    "run loaded_world [ClickMainButton, ClickCancel, ClickMainButton,
        RemoteSettles 0 (Inl (Error ''quota exceeded''))]
       = step w3 (RemoteSettles 0 (Inl (Error ''quota exceeded'')))"
    by (simp_all add: run_def w1_def w2_def w3_def)
  show ?thesis
    unfolding runs ok failed
    by (simp add: w2 w3 afterAwait_success afterAwait_retry MAX_ATTEMPTS_def)
qed

end
